theory Spec2Isabelle
  imports Main "HOL-Library.Sublist"
begin

section \<open>Data model\<close>

text \<open>
  A task item as the client sees it in \<^verbatim>\<open>App.jsx\<close>: the fields \<^verbatim>\<open>_id\<close>, \<^verbatim>\<open>title\<close> and
  \<^verbatim>\<open>completed\<close>. The client only ever compares identifiers with \<^verbatim>\<open>===\<close> and
  \<^verbatim>\<open>!==\<close>, so the type of identifiers is a parameter \<open>'i\<close>. The field \<^verbatim>\<open>_id\<close> is
  written \<open>todo_id\<close>.
\<close>

record 'i todo =
  todo_id :: 'i
  title :: string
  completed :: bool

text \<open>
  The component state of \<^verbatim>\<open>App\<close> (the \<^verbatim>\<open>useState\<close> cells): \<^verbatim>\<open>todos\<close>, \<^verbatim>\<open>newTitle\<close>,
  \<^verbatim>\<open>loading\<close>, \<^verbatim>\<open>error\<close> (\<^verbatim>\<open>null\<close> is \<open>None\<close>) and \<^verbatim>\<open>filter\<close>, written
  \<open>filter_sel\<close>. The theme cell plays no part in the list logic and is left out.
\<close>

record 'i app_state =
  todos :: "'i todo list"
  newTitle :: string
  loading :: bool
  error :: "string option"
  filter_sel :: string

text \<open>
  What a rejected request throws. The handlers never inspect the value they catch.
\<close>

datatype exn = NetworkError | HttpError nat

text \<open>
  The requests of \<^verbatim>\<open>services/api.js\<close>, recorded in the order in which a handler issues
  them: \<^verbatim>\<open>createTodo({title})\<close>, \<^verbatim>\<open>updateTodo(id, {completed})\<close>, \<^verbatim>\<open>deleteTodo(id)\<close>.
\<close>

datatype 'i call = CreateTodo string | UpdateTodo 'i bool | DeleteTodo 'i

section \<open>Strings\<close>

text \<open>
  \<^verbatim>\<open>String.prototype.trim\<close> strips white space and line terminators from both ends.
  Characters here are the code units below 256, where these are TAB, LF, VT, FF, CR,
  SPACE and NO-BREAK SPACE.
\<close>

definition isWhiteSpace :: "char \<Rightarrow> bool" where
  "isWhiteSpace c =
     (c = CHR 0x09 \<or> c = CHR 0x0A \<or> c = CHR 0x0B \<or> c = CHR 0x0C \<or> c = CHR 0x0D
      \<or> c = CHR 0x20 \<or> c = CHR 0xA0)"

definition trim :: "string \<Rightarrow> string" where
  "trim s = rev (dropWhile isWhiteSpace (rev (dropWhile isWhiteSpace s)))"

section \<open>Control flow\<close>

text \<open>
  A block of statements runs on a state and completes either normally (\<open>None\<close>) or by
  throwing (\<open>Some e\<close>), with the state it has reached. \<open>try_catch_finally\<close> is the
  JavaScript statement \<^verbatim>\<open>try { body } catch (e) { handler } finally { fin }\<close> for a
  \<^verbatim>\<open>finally\<close> block that cannot throw: the handler runs when the body throws, the
  finaliser runs in every case, and only what the handler throws escapes.
\<close>

definition try_catch_finally ::
  "('s \<Rightarrow> exn option \<times> 's) \<Rightarrow> (exn \<Rightarrow> 's \<Rightarrow> exn option \<times> 's) \<Rightarrow> ('s \<Rightarrow> 's)
     \<Rightarrow> 's \<Rightarrow> exn option \<times> 's" where
  "try_catch_finally body handler fin s =
     (case body s of
        (None, s1) \<Rightarrow> (None, fin s1)
      | (Some e, s1) \<Rightarrow> (case handler e s1 of (x, s2) \<Rightarrow> (x, fin s2)))"

text \<open>
  \<^verbatim>\<open>try { await p } catch {}\<close> around a single awaited promise \<open>p\<close> that touches no
  state: the result says whether anything escapes the statement.
\<close>

definition try_catch :: "exn + 'a \<Rightarrow> (exn \<Rightarrow> exn option) \<Rightarrow> exn option" where
  "try_catch p handler = (case p of Inl e \<Rightarrow> handler e | Inr v \<Rightarrow> None)"

section \<open>Derived views\<close>

text \<open>\<^verbatim>\<open>shownTodos\<close> (App.jsx, lines 14 to 18).\<close>

definition shownTodos :: "'i todo list \<Rightarrow> string \<Rightarrow> 'i todo list" where
  "shownTodos ts f =
     (if f = ''active'' then filter (\<lambda>t. \<not> completed t) ts
      else if f = ''completed'' then filter (\<lambda>t. completed t) ts
      else ts)"

section \<open>Handlers\<close>

text \<open>
  Every handler is an \<^verbatim>\<open>async\<close> function. It runs without interruption up to an
  \<^verbatim>\<open>await\<close>, is suspended there while the request is in flight, and runs without
  interruption again once the promise has settled. The promise is the result of the
  request function of \<^verbatim>\<open>api.js\<close>, \<open>Inl e\<close> when it rejects and \<open>Inr v\<close> when it
  resolves with \<open>v\<close>; the request functions are parameters, so a statement about a
  handler holds for every behaviour of the server. While a handler is suspended, other
  handlers may run and change the state: their combined effect is the parameter
  \<open>meanwhile\<close>, and \<open>id\<close> is the run in which nothing else happens. The values a handler
  reads from its closure (\<^verbatim>\<open>newTitle\<close>, \<^verbatim>\<open>todos\<close>) are those of the state at its
  invocation; the functional updates \<^verbatim>\<open>setTodos(prev => ...)\<close> read the state in which
  they are applied.

  A handler returns the requests it has issued, in order, what escapes from it, and the
  state it leaves.
\<close>

text \<open>
  \<^verbatim>\<open>handleAdd\<close> (App.jsx, lines 54 to 68). Its first statement,
  \<^verbatim>\<open>e.preventDefault()\<close>, acts on the form event and on no cell of the state.
\<close>

definition handleAdd ::
  "(string \<Rightarrow> exn + 'i todo) \<Rightarrow> ('i app_state \<Rightarrow> 'i app_state) \<Rightarrow> 'i app_state
     \<Rightarrow> 'i call list \<times> exn option \<times> 'i app_state" where
  "handleAdd createTodo meanwhile s =
     (if trim (newTitle s) = [] then ([], None, s)
      else
        ([CreateTodo (trim (newTitle s))],
         try_catch_finally
           (\<lambda>s1. case createTodo (trim (newTitle s)) of
                    Inl e \<Rightarrow> (Some e, meanwhile s1)
                  | Inr created \<Rightarrow>
                      (None, (meanwhile s1)\<lparr>todos := created # todos (meanwhile s1),
                                             newTitle := []\<rparr>))
           (\<lambda>e s2. (None, s2\<lparr>error := Some ''Failed to add todo''\<rparr>))
           (\<lambda>s3. s3\<lparr>loading := False\<rparr>)
           (s\<lparr>loading := True, error := None\<rparr>)))"

text \<open>\<^verbatim>\<open>toggleCompleted\<close> (App.jsx, lines 70 to 81).\<close>

definition toggleCompleted ::
  "('i \<Rightarrow> bool \<Rightarrow> exn + 'i todo) \<Rightarrow> ('i app_state \<Rightarrow> 'i app_state) \<Rightarrow> 'i todo
     \<Rightarrow> 'i app_state \<Rightarrow> 'i call list \<times> exn option \<times> 'i app_state" where
  "toggleCompleted updateTodo meanwhile todo s =
     ([UpdateTodo (todo_id todo) (\<not> completed todo)],
      try_catch_finally
        (\<lambda>s1. case updateTodo (todo_id todo) (\<not> completed todo) of
                 Inl e \<Rightarrow> (Some e, meanwhile s1)
               | Inr updated \<Rightarrow>
                   (None, (meanwhile s1)\<lparr>todos :=
                      map (\<lambda>t. if todo_id t = todo_id updated then updated else t)
                        (todos (meanwhile s1))\<rparr>))
        (\<lambda>e s2. (None, s2\<lparr>error := Some ''Failed to update todo''\<rparr>))
        (\<lambda>s3. s3\<lparr>loading := False\<rparr>)
        (s\<lparr>loading := True, error := None\<rparr>))"

text \<open>\<^verbatim>\<open>removeTodo\<close> (App.jsx, lines 83 to 94).\<close>

definition removeTodo ::
  "('i \<Rightarrow> exn + unit) \<Rightarrow> ('i app_state \<Rightarrow> 'i app_state) \<Rightarrow> 'i
     \<Rightarrow> 'i app_state \<Rightarrow> 'i call list \<times> exn option \<times> 'i app_state" where
  "removeTodo deleteTodo meanwhile i s =
     ([DeleteTodo i],
      try_catch_finally
        (\<lambda>s1. case deleteTodo i of
                 Inl e \<Rightarrow> (Some e, meanwhile s1)
               | Inr u \<Rightarrow>
                   (None, (meanwhile s1)\<lparr>todos :=
                      filter (\<lambda>t. todo_id t \<noteq> i) (todos (meanwhile s1))\<rparr>))
        (\<lambda>e s2. (None, s2\<lparr>error := Some ''Failed to delete todo''\<rparr>))
        (\<lambda>s3. s3\<lparr>loading := False\<rparr>)
        (s\<lparr>loading := True, error := None\<rparr>))"

text \<open>
  The loop of \<^verbatim>\<open>clearCompleted\<close> (App.jsx, lines 102 to 108): one \<^verbatim>\<open>deleteTodo\<close> per
  element of the list it is given, each inside its own \<^verbatim>\<open>try\<close> with an empty
  \<^verbatim>\<open>catch\<close>. The loop reads and writes no state. Something escaping an iteration
  would end the loop.
\<close>

fun sweep :: "('i \<Rightarrow> exn + unit) \<Rightarrow> 'i todo list \<Rightarrow> 'i call list \<times> exn option" where
  "sweep deleteTodo [] = ([], None)"
| "sweep deleteTodo (t # ts) =
     (case try_catch (deleteTodo (todo_id t)) (\<lambda>e. None) of
        Some e \<Rightarrow> ([DeleteTodo (todo_id t)], Some e)
      | None \<Rightarrow>
          (case sweep deleteTodo ts of (cs, x) \<Rightarrow> (DeleteTodo (todo_id t) # cs, x)))"

text \<open>\<^verbatim>\<open>clearCompleted\<close> (App.jsx, lines 96 to 115).\<close>

definition clearCompleted ::
  "('i \<Rightarrow> exn + unit) \<Rightarrow> ('i app_state \<Rightarrow> 'i app_state) \<Rightarrow> 'i app_state
     \<Rightarrow> 'i call list \<times> exn option \<times> 'i app_state" where
  "clearCompleted deleteTodo meanwhile s =
     (if length (filter (\<lambda>t. completed t) (todos s)) = 0 then ([], None, s)
      else
        (case sweep deleteTodo (filter (\<lambda>t. completed t) (todos s)) of
           (cs, x) \<Rightarrow>
             (cs,
              try_catch_finally
                (\<lambda>s1. case x of
                         Some e \<Rightarrow> (Some e, meanwhile s1)
                       | None \<Rightarrow>
                           (None, (meanwhile s1)\<lparr>todos :=
                              filter (\<lambda>t. \<not> completed t) (todos (meanwhile s1))\<rparr>))
                (\<lambda>e s2. (None, s2\<lparr>error := Some ''Failed to clear completed''\<rparr>))
                (\<lambda>s3. s3\<lparr>loading := False\<rparr>)
                (s\<lparr>loading := True, error := None\<rparr>))))"

text \<open>The three parts of what a handler returns.\<close>

definition requests :: "'c list \<times> exn option \<times> 's \<Rightarrow> 'c list" where
  "requests r = fst r"

definition escaped :: "'c list \<times> exn option \<times> 's \<Rightarrow> exn option" where
  "escaped r = fst (snd r)"

definition final :: "'c list \<times> exn option \<times> 's \<Rightarrow> 's" where
  "final r = snd (snd r)"

section \<open>The sweep as the specification words it\<close>

text \<open>
  The specification describes the sweep through the identifiers of the items that are
  completed at invocation: they are the snapshot, and the sweep is said to remove from
  the items every item whose identifier is in the snapshot and to keep the others.
  These two definitions follow those words, for comparison with \<open>clearCompleted\<close>.
\<close>

definition snapshot_ids :: "'i app_state \<Rightarrow> 'i list" where
  "snapshot_ids s = map todo_id (filter (\<lambda>t. completed t) (todos s))"

definition remove_snapshot :: "'i list \<Rightarrow> 'i todo list \<Rightarrow> 'i todo list" where
  "remove_snapshot ids ts = filter (\<lambda>t. todo_id t \<notin> set ids) ts"

text \<open>
  The items of the specification's example, with identifiers 1, 2 and 3, in a state in
  which nothing is in flight; and a server that answers every update with the item
  carrying the requested flag, and every delete with success.
\<close>

definition item :: "nat \<Rightarrow> bool \<Rightarrow> nat todo" where
  "item i c = \<lparr>todo_id = i, title = ''task'', completed = c\<rparr>"

definition example_state :: "nat app_state" where
  "example_state =
     \<lparr>todos = [item 1 True, item 2 False, item 3 True], newTitle = [], loading = False,
      error = None, filter_sel = ''all''\<rparr>"

definition update_ok :: "nat \<Rightarrow> bool \<Rightarrow> exn + nat todo" where
  "update_ok i c = Inr (item i c)"

definition delete_ok :: "nat \<Rightarrow> exn + unit" where
  "delete_ok i = Inr ()"

text \<open>
  A Toggle of the second item of the example that is answered while another handler is
  suspended: what it does to the state that handler left.
\<close>

definition toggle_second :: "nat app_state \<Rightarrow> nat app_state" where
  "toggle_second s = final (toggleCompleted update_ok id (item 2 False) s)"

section \<open>Filtered views\<close>

text \<open>
  C2. Under the filter \<^verbatim>\<open>active\<close> the shown list is the sublist of the items that are not
  completed, under \<^verbatim>\<open>completed\<close> the sublist of those that are, both in the order of
  the items, and under \<^verbatim>\<open>all\<close> it is the list of items itself.
\<close>

theorem shownTodos_filters:
  "shownTodos ts ''active'' = filter (\<lambda>t. \<not> completed t) ts
   \<and> shownTodos ts ''completed'' = filter (\<lambda>t. completed t) ts
   \<and> shownTodos ts ''all'' = ts
   \<and> subseq (shownTodos ts f) ts"
  by (simp add: shownTodos_def)

section \<open>Auxiliary facts\<close>

lemma all_dropWhile_iff: "(\<forall>c\<in>set (dropWhile P s). P c) \<longleftrightarrow> (\<forall>c\<in>set s. P c)"
  by (induction s) auto

lemma trim_Nil_iff: "trim s = [] \<longleftrightarrow> (\<forall>c\<in>set s. isWhiteSpace c)"
  by (simp add: trim_def dropWhile_eq_Nil_conv all_dropWhile_iff)

lemma try_catch_finally_normal:
  "body s = (None, s1) \<Longrightarrow> try_catch_finally body handler fin s = (None, fin s1)"
  by (simp add: try_catch_finally_def)

lemma try_catch_finally_caught:
  "body s = (Some e, s1) \<Longrightarrow> handler e s1 = (None, s2)
     \<Longrightarrow> try_catch_finally body handler fin s = (None, fin s2)"
  by (simp add: try_catch_finally_def)

lemma sweep_requests:
  "fst (sweep deleteTodo ts) = map (\<lambda>t. DeleteTodo (todo_id t)) ts"
  by (induction ts) (auto simp: try_catch_def split: sum.splits prod.splits)

lemma sweep_completes: "snd (sweep deleteTodo ts) = None"
  by (induction ts) (auto simp: try_catch_def split: sum.splits prod.splits)

lemma sweep_eq: "sweep deleteTodo ts = (map (\<lambda>t. DeleteTodo (todo_id t)) ts, None)"
  by (simp add: prod_eq_iff sweep_requests sweep_completes)

lemma clearCompleted_eq:
  "clearCompleted deleteTodo meanwhile s =
     (if filter (\<lambda>t. completed t) (todos s) = [] then ([], None, s)
      else
        (map (\<lambda>t. DeleteTodo (todo_id t)) (filter (\<lambda>t. completed t) (todos s)), None,
         (meanwhile (s\<lparr>loading := True, error := None\<rparr>))
           \<lparr>todos := filter (\<lambda>t. \<not> completed t)
              (todos (meanwhile (s\<lparr>loading := True, error := None\<rparr>))),
            loading := False\<rparr>))"
  by (simp add: clearCompleted_def sweep_eq try_catch_finally_def)

lemma filter_snapshot_items:
  "filter (\<lambda>t. \<not> completed t) ts = filter (\<lambda>t. t \<notin> set (filter (\<lambda>t. completed t) ts)) ts"
  by (rule filter_cong) auto

lemma filter_snapshot_ids:
  "distinct (map todo_id ts) \<Longrightarrow>
     filter (\<lambda>t. \<not> completed t) ts = remove_snapshot (map todo_id (filter (\<lambda>t. completed t) ts)) ts"
  unfolding remove_snapshot_def
proof (rule filter_cong)
  fix t assume d: "distinct (map todo_id ts)" and t: "t \<in> set ts"
  have "todo_id t \<in> set (map todo_id (filter (\<lambda>t. completed t) ts)) \<longleftrightarrow> completed t"
  proof
    assume "todo_id t \<in> set (map todo_id (filter (\<lambda>t. completed t) ts))"
    then obtain u where u: "u \<in> set ts" "completed u" "todo_id u = todo_id t"
      by auto
    from d u(1) t u(3) have "u = t"
      by (meson distinct_map inj_onD)
    with u(2) show "completed t" by simp
  next
    assume "completed t"
    with t show "todo_id t \<in> set (map todo_id (filter (\<lambda>t. completed t) ts))"
      by auto
  qed
  then show "(\<not> completed t) = (todo_id t \<notin> set (map todo_id (filter (\<lambda>t. completed t) ts)))"
    by simp
qed simp

section \<open>Add\<close>

text \<open>
  C4. When the title in the input field is empty or consists of white space only,
  \<open>handleAdd\<close> does nothing: it issues no request, nothing escapes from it, and the
  state, with its items, its loading flag and its error, is the state it was invoked in.
\<close>

theorem handleAdd_blank_is_noop:
  assumes "list_all isWhiteSpace (newTitle s)"
  shows "requests (handleAdd createTodo meanwhile s) = []
         \<and> escaped (handleAdd createTodo meanwhile s) = None
         \<and> final (handleAdd createTodo meanwhile s) = s"
proof -
  from assms have "trim (newTitle s) = []"
    by (simp add: trim_Nil_iff list_all_iff)
  then show ?thesis
    by (simp add: handleAdd_def requests_def escaped_def final_def)
qed

theorem handleAdd_blank_is_noop_witness:
  "list_all isWhiteSpace (newTitle (example_state\<lparr>newTitle := ''  ''\<rparr>))
   \<and> requests (handleAdd (\<lambda>t. Inr (item 4 False)) id (example_state\<lparr>newTitle := ''  ''\<rparr>)) = []
   \<and> final (handleAdd (\<lambda>t. Inr (item 4 False)) id (example_state\<lparr>newTitle := ''  ''\<rparr>))
       = example_state\<lparr>newTitle := ''  ''\<rparr>"
proof -
  have h: "list_all isWhiteSpace (newTitle (example_state\<lparr>newTitle := ''  ''\<rparr>))"
    by (simp add: isWhiteSpace_def)
  from handleAdd_blank_is_noop [OF h] h show ?thesis
    by simp
qed

text \<open>
  C5. When the title has a character that is not white space and the create request
  succeeds, \<open>handleAdd\<close> puts the item the server returned in front of the items and
  empties the input field. The items that follow it, unchanged and in their order, are
  those of the state in which the update is applied, whatever other handlers have done
  meanwhile; when nothing else has happened they are the items at invocation.
\<close>

theorem handleAdd_success_prepends:
  assumes "\<not> list_all isWhiteSpace (newTitle s)"
    and "createTodo (trim (newTitle s)) = Inr created"
  shows "requests (handleAdd createTodo meanwhile s) = [CreateTodo (trim (newTitle s))]
         \<and> todos (final (handleAdd createTodo meanwhile s))
             = created # todos (meanwhile (s\<lparr>loading := True, error := None\<rparr>))
         \<and> newTitle (final (handleAdd createTodo meanwhile s)) = []
         \<and> todos (final (handleAdd createTodo id s)) = created # todos s"
proof -
  from assms(1) have "trim (newTitle s) \<noteq> []"
    by (simp add: trim_Nil_iff list_all_iff)
  with assms(2) show ?thesis
    by (simp add: handleAdd_def try_catch_finally_def requests_def final_def)
qed

theorem handleAdd_success_prepends_witness:
  "\<not> list_all isWhiteSpace (newTitle (example_state\<lparr>newTitle := '' Buy milk ''\<rparr>))
   \<and> todos (final (handleAdd (\<lambda>t. Inr \<lparr>todo_id = 4, title = t, completed = False\<rparr>)
        toggle_second (example_state\<lparr>newTitle := '' Buy milk ''\<rparr>)))
       = [\<lparr>todo_id = 4, title = ''Buy milk'', completed = False\<rparr>,
          item 1 True, item 2 True, item 3 True]
   \<and> todos (final (handleAdd (\<lambda>t. Inr \<lparr>todo_id = 4, title = t, completed = False\<rparr>) id
        (example_state\<lparr>newTitle := '' Buy milk ''\<rparr>)))
       = [\<lparr>todo_id = 4, title = ''Buy milk'', completed = False\<rparr>,
          item 1 True, item 2 False, item 3 True]
   \<and> newTitle (final (handleAdd (\<lambda>t. Inr \<lparr>todo_id = 4, title = t, completed = False\<rparr>)
        toggle_second (example_state\<lparr>newTitle := '' Buy milk ''\<rparr>))) = []"
proof -
  have h: "\<not> list_all isWhiteSpace (newTitle (example_state\<lparr>newTitle := '' Buy milk ''\<rparr>))"
    by (simp add: isWhiteSpace_def)
  have t: "trim (newTitle (example_state\<lparr>newTitle := '' Buy milk ''\<rparr>)) = ''Buy milk''"
    by (simp add: trim_def isWhiteSpace_def)
  have e: "todos (example_state\<lparr>newTitle := '' Buy milk ''\<rparr>)
            = [item 1 True, item 2 False, item 3 True]"
    by (simp add: example_state_def)
  have m: "todos (toggle_second
      (example_state\<lparr>newTitle := '' Buy milk '', loading := True, error := None\<rparr>))
       = [item 1 True, item 2 True, item 3 True]"
    by (simp add: toggle_second_def toggleCompleted_def try_catch_finally_def final_def
        update_ok_def example_state_def item_def)
  have c: "(\<lambda>t. Inr \<lparr>todo_id = 4, title = t, completed = False\<rparr>)
        (trim (newTitle (example_state\<lparr>newTitle := '' Buy milk ''\<rparr>)))
      = (Inr \<lparr>todo_id = 4::nat, title = ''Buy milk'', completed = False\<rparr> :: exn + nat todo)"
    by (simp only: t)
  note a = handleAdd_success_prepends
    [where s = "example_state\<lparr>newTitle := '' Buy milk ''\<rparr>"
       and createTodo = "\<lambda>t. Inr \<lparr>todo_id = 4, title = t, completed = False\<rparr>"
       and created = "\<lparr>todo_id = 4, title = ''Buy milk'', completed = False\<rparr>"
       and meanwhile = toggle_second, OF h c]
  from a have a1: "todos (final (handleAdd (\<lambda>t. Inr \<lparr>todo_id = 4, title = t, completed = False\<rparr>)
        toggle_second (example_state\<lparr>newTitle := '' Buy milk ''\<rparr>)))
       = \<lparr>todo_id = 4, title = ''Buy milk'', completed = False\<rparr>
         # todos (toggle_second
             (example_state\<lparr>newTitle := '' Buy milk '', loading := True, error := None\<rparr>))"
    by blast
  from a have a2: "todos (final (handleAdd (\<lambda>t. Inr \<lparr>todo_id = 4, title = t, completed = False\<rparr>) id
        (example_state\<lparr>newTitle := '' Buy milk ''\<rparr>)))
       = \<lparr>todo_id = 4, title = ''Buy milk'', completed = False\<rparr>
         # todos (example_state\<lparr>newTitle := '' Buy milk ''\<rparr>)"
    by blast
  from a have a3: "newTitle (final (handleAdd (\<lambda>t. Inr \<lparr>todo_id = 4, title = t, completed = False\<rparr>)
        toggle_second (example_state\<lparr>newTitle := '' Buy milk ''\<rparr>))) = []"
    by blast
  from h show ?thesis
    unfolding a1 a2 a3 m e by simp
qed

section \<open>Failing requests\<close>

text \<open>
  C3. When the request of an Add, a Toggle or a Remove is rejected, nothing escapes from
  the handler, and the handler writes nothing but the error, which becomes the message
  of that operation (none of the three is empty), and the loading flag, which becomes
  false. The items are therefore those the handler finds when the rejection arrives,
  whatever other handlers have done meanwhile, and the items at invocation when nothing
  else has happened. For Add the request is made only if the trimmed title is not empty.
\<close>

theorem failed_request_is_caught:
  "(trim (newTitle s) \<noteq> [] \<and> createTodo (trim (newTitle s)) = Inl e1 \<longrightarrow>
      escaped (handleAdd createTodo meanwhile s) = None
      \<and> todos (final (handleAdd createTodo meanwhile s))
          = todos (meanwhile (s\<lparr>loading := True, error := None\<rparr>))
      \<and> error (final (handleAdd createTodo meanwhile s)) = Some ''Failed to add todo''
      \<and> loading (final (handleAdd createTodo meanwhile s)) = False
      \<and> final (handleAdd createTodo meanwhile s)
          = (meanwhile (s\<lparr>loading := True, error := None\<rparr>))
              \<lparr>error := Some ''Failed to add todo'', loading := False\<rparr>
      \<and> todos (final (handleAdd createTodo id s)) = todos s)
   \<and> (updateTodo (todo_id todo) (\<not> completed todo) = Inl e2 \<longrightarrow>
      escaped (toggleCompleted updateTodo meanwhile todo s) = None
      \<and> todos (final (toggleCompleted updateTodo meanwhile todo s))
          = todos (meanwhile (s\<lparr>loading := True, error := None\<rparr>))
      \<and> error (final (toggleCompleted updateTodo meanwhile todo s)) = Some ''Failed to update todo''
      \<and> loading (final (toggleCompleted updateTodo meanwhile todo s)) = False
      \<and> final (toggleCompleted updateTodo meanwhile todo s)
          = (meanwhile (s\<lparr>loading := True, error := None\<rparr>))
              \<lparr>error := Some ''Failed to update todo'', loading := False\<rparr>
      \<and> todos (final (toggleCompleted updateTodo id todo s)) = todos s)
   \<and> (deleteTodo i = Inl e3 \<longrightarrow>
      escaped (removeTodo deleteTodo meanwhile i s) = None
      \<and> todos (final (removeTodo deleteTodo meanwhile i s))
          = todos (meanwhile (s\<lparr>loading := True, error := None\<rparr>))
      \<and> error (final (removeTodo deleteTodo meanwhile i s)) = Some ''Failed to delete todo''
      \<and> loading (final (removeTodo deleteTodo meanwhile i s)) = False
      \<and> final (removeTodo deleteTodo meanwhile i s)
          = (meanwhile (s\<lparr>loading := True, error := None\<rparr>))
              \<lparr>error := Some ''Failed to delete todo'', loading := False\<rparr>
      \<and> todos (final (removeTodo deleteTodo id i s)) = todos s)"
proof (intro conjI impI)
  assume "trim (newTitle s) \<noteq> [] \<and> createTodo (trim (newTitle s)) = Inl e1"
  then have r: "\<And>m. handleAdd createTodo m s =
      ([CreateTodo (trim (newTitle s))], None,
       (m (s\<lparr>loading := True, error := None\<rparr>))
         \<lparr>error := Some ''Failed to add todo'', loading := False\<rparr>)"
    by (simp add: handleAdd_def try_catch_finally_def)
  show "escaped (handleAdd createTodo meanwhile s) = None"
    and "todos (final (handleAdd createTodo meanwhile s))
          = todos (meanwhile (s\<lparr>loading := True, error := None\<rparr>))"
    and "error (final (handleAdd createTodo meanwhile s)) = Some ''Failed to add todo''"
    and "loading (final (handleAdd createTodo meanwhile s)) = False"
    and "final (handleAdd createTodo meanwhile s)
          = (meanwhile (s\<lparr>loading := True, error := None\<rparr>))
              \<lparr>error := Some ''Failed to add todo'', loading := False\<rparr>"
    and "todos (final (handleAdd createTodo id s)) = todos s"
    by (simp_all add: r escaped_def final_def)
next
  assume "updateTodo (todo_id todo) (\<not> completed todo) = Inl e2"
  then have r: "\<And>m. toggleCompleted updateTodo m todo s =
      ([UpdateTodo (todo_id todo) (\<not> completed todo)], None,
       (m (s\<lparr>loading := True, error := None\<rparr>))
         \<lparr>error := Some ''Failed to update todo'', loading := False\<rparr>)"
    by (simp add: toggleCompleted_def try_catch_finally_def)
  show "escaped (toggleCompleted updateTodo meanwhile todo s) = None"
    and "todos (final (toggleCompleted updateTodo meanwhile todo s))
          = todos (meanwhile (s\<lparr>loading := True, error := None\<rparr>))"
    and "error (final (toggleCompleted updateTodo meanwhile todo s)) = Some ''Failed to update todo''"
    and "loading (final (toggleCompleted updateTodo meanwhile todo s)) = False"
    and "final (toggleCompleted updateTodo meanwhile todo s)
          = (meanwhile (s\<lparr>loading := True, error := None\<rparr>))
              \<lparr>error := Some ''Failed to update todo'', loading := False\<rparr>"
    and "todos (final (toggleCompleted updateTodo id todo s)) = todos s"
    by (simp_all add: r escaped_def final_def)
next
  assume "deleteTodo i = Inl e3"
  then have r: "\<And>m. removeTodo deleteTodo m i s =
      ([DeleteTodo i], None,
       (m (s\<lparr>loading := True, error := None\<rparr>))
         \<lparr>error := Some ''Failed to delete todo'', loading := False\<rparr>)"
    by (simp add: removeTodo_def try_catch_finally_def)
  show "escaped (removeTodo deleteTodo meanwhile i s) = None"
    and "todos (final (removeTodo deleteTodo meanwhile i s))
          = todos (meanwhile (s\<lparr>loading := True, error := None\<rparr>))"
    and "error (final (removeTodo deleteTodo meanwhile i s)) = Some ''Failed to delete todo''"
    and "loading (final (removeTodo deleteTodo meanwhile i s)) = False"
    and "final (removeTodo deleteTodo meanwhile i s)
          = (meanwhile (s\<lparr>loading := True, error := None\<rparr>))
              \<lparr>error := Some ''Failed to delete todo'', loading := False\<rparr>"
    and "todos (final (removeTodo deleteTodo id i s)) = todos s"
    by (simp_all add: r escaped_def final_def)
qed

theorem failed_request_is_caught_witness:
  "(trim (newTitle (example_state\<lparr>newTitle := ''x''\<rparr>)) \<noteq> []
    \<and> todos (final (handleAdd (\<lambda>t. Inl NetworkError) toggle_second
         (example_state\<lparr>newTitle := ''x''\<rparr>)))
        = [item 1 True, item 2 True, item 3 True]
    \<and> todos (final (handleAdd (\<lambda>t. Inl NetworkError) id (example_state\<lparr>newTitle := ''x''\<rparr>)))
        = [item 1 True, item 2 False, item 3 True]
    \<and> error (final (handleAdd (\<lambda>t. Inl NetworkError) toggle_second
         (example_state\<lparr>newTitle := ''x''\<rparr>)))
        = Some ''Failed to add todo'')
   \<and> (todos (final (toggleCompleted (\<lambda>i c. Inl (HttpError 500)) toggle_second (item 1 True)
         example_state))
        = [item 1 True, item 2 True, item 3 True]
    \<and> error (final (toggleCompleted (\<lambda>i c. Inl (HttpError 500)) toggle_second (item 1 True)
         example_state))
        = Some ''Failed to update todo'')
   \<and> (todos (final (removeTodo (\<lambda>i. Inl (HttpError 404)) toggle_second 1 example_state))
        = [item 1 True, item 2 True, item 3 True]
    \<and> loading (final (removeTodo (\<lambda>i. Inl (HttpError 404)) toggle_second 1 example_state))
        = False)"
proof -
  have h: "trim (newTitle (example_state\<lparr>newTitle := ''x''\<rparr>)) \<noteq> []"
    by (simp add: trim_def isWhiteSpace_def)
  have m1: "todos (toggle_second (example_state\<lparr>newTitle := ''x'', loading := True, error := None\<rparr>))
       = [item 1 True, item 2 True, item 3 True]"
    by (simp add: toggle_second_def toggleCompleted_def try_catch_finally_def final_def
        update_ok_def example_state_def item_def)
  have m2: "todos (toggle_second (example_state\<lparr>loading := True, error := None\<rparr>))
       = [item 1 True, item 2 True, item 3 True]"
    by (simp add: toggle_second_def toggleCompleted_def try_catch_finally_def final_def
        update_ok_def example_state_def item_def)
  have e: "todos (example_state\<lparr>newTitle := ''x''\<rparr>) = [item 1 True, item 2 False, item 3 True]"
    by (simp add: example_state_def)
  note f = failed_request_is_caught
    [where s = "example_state\<lparr>newTitle := ''x''\<rparr>" and createTodo = "\<lambda>t. Inl NetworkError"
       and ?e1.0 = NetworkError and meanwhile = toggle_second]
  from f h have a1: "todos (final (handleAdd (\<lambda>t. Inl NetworkError) toggle_second
         (example_state\<lparr>newTitle := ''x''\<rparr>)))
        = todos (toggle_second (example_state\<lparr>newTitle := ''x'', loading := True, error := None\<rparr>))"
    by simp
  from f h have a2: "todos (final (handleAdd (\<lambda>t. Inl NetworkError) id
         (example_state\<lparr>newTitle := ''x''\<rparr>)))
        = todos (example_state\<lparr>newTitle := ''x''\<rparr>)"
    by simp
  from f h have a3: "error (final (handleAdd (\<lambda>t. Inl NetworkError) toggle_second
         (example_state\<lparr>newTitle := ''x''\<rparr>)))
        = Some ''Failed to add todo''"
    by simp
  note g = failed_request_is_caught
    [where s = example_state and updateTodo = "\<lambda>i c. Inl (HttpError 500)"
       and todo = "item 1 True" and ?e2.0 = "HttpError 500" and meanwhile = toggle_second
       and deleteTodo = "\<lambda>i. Inl (HttpError 404)" and i = 1 and ?e3.0 = "HttpError 404"]
  from g have b1: "todos (final (toggleCompleted (\<lambda>i c. Inl (HttpError 500)) toggle_second
         (item 1 True) example_state))
        = todos (toggle_second (example_state\<lparr>loading := True, error := None\<rparr>))"
    by simp
  from g have b2: "error (final (toggleCompleted (\<lambda>i c. Inl (HttpError 500)) toggle_second
         (item 1 True) example_state))
        = Some ''Failed to update todo''"
    by simp
  from g have c1: "todos (final (removeTodo (\<lambda>i. Inl (HttpError 404)) toggle_second 1 example_state))
        = todos (toggle_second (example_state\<lparr>loading := True, error := None\<rparr>))"
    by simp
  from g have c2: "loading (final (removeTodo (\<lambda>i. Inl (HttpError 404)) toggle_second 1
         example_state)) = False"
    by simp
  from h show ?thesis
    unfolding a1 a2 a3 b1 b2 c1 c2 m1 m2 e by simp
qed

section \<open>Toggle and Remove\<close>

text \<open>
  C6. When the update request of a Toggle succeeds, the list of items keeps its length,
  and at every position it holds the item the server returned if the item that stood
  there has the identifier of the returned item, and the item that stood there
  otherwise. The list the update works on is that of the state in which it is applied,
  whatever other handlers have done meanwhile; when nothing else has happened it is the
  list at invocation.
\<close>

theorem toggleCompleted_success_replaces:
  assumes "updateTodo (todo_id todo) (\<not> completed todo) = Inr updated"
  shows "length (todos (final (toggleCompleted updateTodo meanwhile todo s)))
           = length (todos (meanwhile (s\<lparr>loading := True, error := None\<rparr>)))
         \<and> (\<forall>k<length (todos (meanwhile (s\<lparr>loading := True, error := None\<rparr>))).
              todos (final (toggleCompleted updateTodo meanwhile todo s)) ! k =
                (if todo_id (todos (meanwhile (s\<lparr>loading := True, error := None\<rparr>)) ! k)
                      = todo_id updated
                 then updated
                 else todos (meanwhile (s\<lparr>loading := True, error := None\<rparr>)) ! k))
         \<and> length (todos (final (toggleCompleted updateTodo id todo s))) = length (todos s)
         \<and> (\<forall>k<length (todos s).
              todos (final (toggleCompleted updateTodo id todo s)) ! k =
                (if todo_id (todos s ! k) = todo_id updated then updated else todos s ! k))"
proof -
  from assms have
    "\<And>m. todos (final (toggleCompleted updateTodo m todo s)) =
       map (\<lambda>t. if todo_id t = todo_id updated then updated else t)
         (todos (m (s\<lparr>loading := True, error := None\<rparr>)))"
    by (simp add: toggleCompleted_def try_catch_finally_def final_def)
  then show ?thesis by simp
qed

theorem toggleCompleted_success_replaces_witness:
  "update_ok (todo_id (item 1 True)) (\<not> completed (item 1 True)) = Inr (item 1 False)
   \<and> todos (toggle_second (example_state\<lparr>loading := True, error := None\<rparr>))
       = [item 1 True, item 2 True, item 3 True]
   \<and> length (todos (final (toggleCompleted update_ok toggle_second (item 1 True) example_state))) = 3
   \<and> todos (final (toggleCompleted update_ok toggle_second (item 1 True) example_state)) ! 0
       = item 1 False
   \<and> todos (final (toggleCompleted update_ok toggle_second (item 1 True) example_state)) ! 1
       = item 2 True
   \<and> todos (final (toggleCompleted update_ok toggle_second (item 1 True) example_state)) ! 2
       = item 3 True"
proof -
  have h: "update_ok (todo_id (item 1 True)) (\<not> completed (item 1 True)) = Inr (item 1 False)"
    by (simp add: update_ok_def item_def)
  have m: "todos (toggle_second (example_state\<lparr>loading := True, error := None\<rparr>))
       = [item 1 True, item 2 True, item 3 True]"
    by (simp add: toggle_second_def toggleCompleted_def try_catch_finally_def final_def
        update_ok_def example_state_def item_def)
  note t = toggleCompleted_success_replaces
    [where updateTodo = update_ok and todo = "item 1 True" and updated = "item 1 False"
       and s = example_state and meanwhile = toggle_second, OF h]
  from t have l: "length (todos (final (toggleCompleted update_ok toggle_second (item 1 True)
      example_state))) = length (todos (toggle_second (example_state\<lparr>loading := True, error := None\<rparr>)))"
    by (rule conjunct1)
  from t have p: "\<forall>k<length (todos (toggle_second (example_state\<lparr>loading := True, error := None\<rparr>))).
      todos (final (toggleCompleted update_ok toggle_second (item 1 True) example_state)) ! k =
        (if todo_id (todos (toggle_second (example_state\<lparr>loading := True, error := None\<rparr>)) ! k)
              = todo_id (item 1 False)
         then item 1 False
         else todos (toggle_second (example_state\<lparr>loading := True, error := None\<rparr>)) ! k)"
    by blast
  have a: "todos (final (toggleCompleted update_ok toggle_second (item 1 True) example_state)) ! 0
       = item 1 False"
    using p [unfolded m, rule_format, of 0] by (simp add: item_def)
  have b: "todos (final (toggleCompleted update_ok toggle_second (item 1 True) example_state)) ! 1
       = item 2 True"
    using p [unfolded m, rule_format, of 1] by (simp add: item_def)
  have c: "todos (final (toggleCompleted update_ok toggle_second (item 1 True) example_state)) ! 2
       = item 3 True"
    using p [unfolded m, rule_format, of 2] by (simp add: item_def)
  from h m l a b c show ?thesis by simp
qed

text \<open>
  C7. When the delete request of a Remove succeeds, the items that are left are those
  whose identifier differs from the one Remove was invoked with, in the order they had;
  the items with that identifier, and only they, are gone. The list the update works
  on is that of the state in which it is applied, whatever other handlers have done
  meanwhile; when nothing else has happened it is the list at invocation.
\<close>

theorem removeTodo_success_removes:
  assumes "deleteTodo i = Inr ()"
  shows "todos (final (removeTodo deleteTodo meanwhile i s))
           = filter (\<lambda>t. todo_id t \<noteq> i) (todos (meanwhile (s\<lparr>loading := True, error := None\<rparr>)))
         \<and> subseq (todos (final (removeTodo deleteTodo meanwhile i s)))
             (todos (meanwhile (s\<lparr>loading := True, error := None\<rparr>)))
         \<and> set (todos (final (removeTodo deleteTodo meanwhile i s)))
             = set (todos (meanwhile (s\<lparr>loading := True, error := None\<rparr>))) - {t. todo_id t = i}
         \<and> todos (final (removeTodo deleteTodo id i s)) = filter (\<lambda>t. todo_id t \<noteq> i) (todos s)"
proof -
  from assms have
    "\<And>m. todos (final (removeTodo deleteTodo m i s))
       = filter (\<lambda>t. todo_id t \<noteq> i) (todos (m (s\<lparr>loading := True, error := None\<rparr>)))"
    by (simp add: removeTodo_def try_catch_finally_def final_def)
  then show ?thesis by auto
qed

theorem removeTodo_success_removes_witness:
  "delete_ok 1 = Inr ()
   \<and> todos (final (removeTodo delete_ok toggle_second 1 example_state))
       = [item 2 True, item 3 True]
   \<and> todos (final (removeTodo delete_ok id 1 example_state)) = [item 2 False, item 3 True]"
proof -
  have h: "delete_ok 1 = Inr ()"
    by (simp add: delete_ok_def)
  have m: "todos (toggle_second (example_state\<lparr>loading := True, error := None\<rparr>))
       = [item 1 True, item 2 True, item 3 True]"
    by (simp add: toggle_second_def toggleCompleted_def try_catch_finally_def final_def
        update_ok_def example_state_def item_def)
  note r = removeTodo_success_removes
    [where deleteTodo = delete_ok and i = 1 and s = example_state and meanwhile = toggle_second,
     OF h]
  from r have a: "todos (final (removeTodo delete_ok toggle_second 1 example_state))
          = filter (\<lambda>t. todo_id t \<noteq> 1)
              (todos (toggle_second (example_state\<lparr>loading := True, error := None\<rparr>)))"
    by (rule conjunct1)
  from r have b: "todos (final (removeTodo delete_ok id 1 example_state))
          = filter (\<lambda>t. todo_id t \<noteq> 1) (todos example_state)"
    by blast
  from h show ?thesis
    unfolding a b m by (simp add: example_state_def item_def)
qed

section \<open>Clear completed\<close>

text \<open>
  C10. When no item is completed at invocation, \<open>clearCompleted\<close> does nothing: it
  issues no delete request, nothing escapes from it, and the state, with its items, its
  loading flag and its error, is the state it was invoked in.
\<close>

theorem clearCompleted_nothing_to_clear:
  assumes "list_all (\<lambda>t. \<not> completed t) (todos s)"
  shows "requests (clearCompleted deleteTodo meanwhile s) = []
         \<and> escaped (clearCompleted deleteTodo meanwhile s) = None
         \<and> final (clearCompleted deleteTodo meanwhile s) = s"
proof -
  from assms have "filter (\<lambda>t. completed t) (todos s) = []"
    by (simp add: list_all_iff filter_empty_conv)
  then show ?thesis
    by (simp add: clearCompleted_eq requests_def escaped_def final_def)
qed

theorem clearCompleted_nothing_to_clear_witness:
  "list_all (\<lambda>t. \<not> completed t) (todos (example_state\<lparr>todos := [item 2 False]\<rparr>))
   \<and> requests (clearCompleted delete_ok toggle_second (example_state\<lparr>todos := [item 2 False]\<rparr>)) = []
   \<and> final (clearCompleted delete_ok toggle_second (example_state\<lparr>todos := [item 2 False]\<rparr>))
       = example_state\<lparr>todos := [item 2 False]\<rparr>"
proof -
  have h: "list_all (\<lambda>t. \<not> completed t) (todos (example_state\<lparr>todos := [item 2 False]\<rparr>))"
    by (simp add: item_def)
  from clearCompleted_nothing_to_clear [OF h] h show ?thesis
    by simp
qed

text \<open>
  C9. In the state \<open>clearCompleted\<close> leaves, no item is completed. When some item is
  completed at invocation, so that the sweep runs, its last update keeps of the items
  of the state it is applied to, whatever has happened to them while the deletes were
  in flight, exactly those that are not completed then: what it removes is decided by
  the flags at that time and not by the identifiers of the snapshot.
\<close>

theorem clearCompleted_leaves_no_completed:
  "(\<forall>t\<in>set (todos (final (clearCompleted deleteTodo meanwhile s))). \<not> completed t)
   \<and> (filter (\<lambda>t. completed t) (todos s) \<noteq> [] \<longrightarrow>
        todos (final (clearCompleted deleteTodo meanwhile s)) =
          filter (\<lambda>t. \<not> completed t) (todos (meanwhile (s\<lparr>loading := True, error := None\<rparr>))))"
  by (auto simp: clearCompleted_eq final_def filter_empty_conv)

theorem clearCompleted_leaves_no_completed_witness:
  "filter (\<lambda>t. completed t) (todos example_state) \<noteq> []
   \<and> todos (toggle_second (example_state\<lparr>loading := True, error := None\<rparr>))
       = [item 1 True, item 2 True, item 3 True]
   \<and> todos (final (clearCompleted delete_ok toggle_second example_state)) = []"
proof -
  have h: "filter (\<lambda>t. completed t) (todos example_state) \<noteq> []"
    by (simp add: example_state_def item_def)
  have m: "todos (toggle_second (example_state\<lparr>loading := True, error := None\<rparr>))
       = [item 1 True, item 2 True, item 3 True]"
    by (simp add: toggle_second_def toggleCompleted_def try_catch_finally_def final_def
        update_ok_def example_state_def item_def)
  from clearCompleted_leaves_no_completed [of delete_ok toggle_second example_state] h
  have "todos (final (clearCompleted delete_ok toggle_second example_state)) =
      filter (\<lambda>t. \<not> completed t) (todos (toggle_second (example_state\<lparr>loading := True, error := None\<rparr>)))"
    by blast
  then have "todos (final (clearCompleted delete_ok toggle_second example_state)) = []"
    unfolding m by (simp add: item_def)
  with h m show ?thesis by blast
qed

text \<open>
  C1, as the specification states it, fails. From the items of its example, with a
  Toggle of item 2 answered while the deletes of the sweep are in flight, the snapshot
  is 1 and 3 and the items at the last update are 1, 2 and 3, all completed. Removing
  the items of the snapshot would leave item 2; the sweep leaves nothing.
\<close>

theorem clearCompleted_snapshot_counterexample:
  "snapshot_ids example_state = [1, 3]
   \<and> todos (toggle_second (example_state\<lparr>loading := True, error := None\<rparr>))
       = [item 1 True, item 2 True, item 3 True]
   \<and> remove_snapshot (snapshot_ids example_state)
        (todos (toggle_second (example_state\<lparr>loading := True, error := None\<rparr>)))
       = [item 2 True]
   \<and> todos (final (clearCompleted delete_ok toggle_second example_state)) = []
   \<and> todos (final (clearCompleted delete_ok toggle_second example_state))
       \<noteq> remove_snapshot (snapshot_ids example_state)
            (todos (toggle_second (example_state\<lparr>loading := True, error := None\<rparr>)))"
  by (simp add: clearCompleted_eq final_def snapshot_ids_def remove_snapshot_def
      toggle_second_def toggleCompleted_def try_catch_finally_def update_ok_def
      example_state_def item_def)

text \<open>
  Identifiers shared by two items separate the two readings as well, with nothing
  happening during the sweep: the item that is not completed stays, although its
  identifier is in the snapshot.
\<close>

lemma clearCompleted_shared_identifier:
  "todos (final (clearCompleted delete_ok id
      (example_state\<lparr>todos := [item 1 True, item 1 False]\<rparr>))) = [item 1 False]
   \<and> remove_snapshot (snapshot_ids (example_state\<lparr>todos := [item 1 True, item 1 False]\<rparr>))
        [item 1 True, item 1 False] = []"
  by (simp add: clearCompleted_eq final_def snapshot_ids_def remove_snapshot_def
      example_state_def item_def)

text \<open>
  C1, amended. The items that are completed at invocation are the snapshot. Whatever
  the outcomes of the deletes and whatever else happens meanwhile, the sweep issues one
  delete for each item of the snapshot, in order, and nothing escapes from it. When
  nothing else changes the state while the deletes are in flight, the sweep removes
  exactly the items of the snapshot and keeps the others in order; when, moreover, no
  two items share an identifier, these are the items whose identifier is not in the
  snapshot.
\<close>

theorem clearCompleted_sweep:
  "requests (clearCompleted deleteTodo meanwhile s) = map DeleteTodo (snapshot_ids s)
   \<and> escaped (clearCompleted deleteTodo meanwhile s) = None
   \<and> todos (final (clearCompleted deleteTodo id s))
       = filter (\<lambda>t. t \<notin> set (filter (\<lambda>t. completed t) (todos s))) (todos s)
   \<and> (distinct (map todo_id (todos s)) \<longrightarrow>
        todos (final (clearCompleted deleteTodo id s))
          = remove_snapshot (snapshot_ids s) (todos s))"
proof (intro conjI impI)
  show "requests (clearCompleted deleteTodo meanwhile s) = map DeleteTodo (snapshot_ids s)"
    by (simp add: clearCompleted_eq requests_def snapshot_ids_def comp_def)
  show "escaped (clearCompleted deleteTodo meanwhile s) = None"
    by (simp add: clearCompleted_eq escaped_def)
  have k: "todos (final (clearCompleted deleteTodo id s)) = filter (\<lambda>t. \<not> completed t) (todos s)"
    by (simp add: clearCompleted_eq final_def filter_empty_conv)
  show "todos (final (clearCompleted deleteTodo id s))
       = filter (\<lambda>t. t \<notin> set (filter (\<lambda>t. completed t) (todos s))) (todos s)"
    using k filter_snapshot_items [of "todos s"] by simp
  assume "distinct (map todo_id (todos s))"
  then show "todos (final (clearCompleted deleteTodo id s))
          = remove_snapshot (snapshot_ids s) (todos s)"
    using k by (simp add: filter_snapshot_ids snapshot_ids_def)
qed

theorem clearCompleted_sweep_witness:
  "distinct (map todo_id (todos example_state))
   \<and> requests (clearCompleted (\<lambda>i. if i = 1 then Inl (HttpError 500) else Inr ()) id example_state)
       = [DeleteTodo 1, DeleteTodo 3]
   \<and> todos (final (clearCompleted (\<lambda>i. if i = 1 then Inl (HttpError 500) else Inr ()) id
        example_state)) = [item 2 False]"
proof -
  have h: "distinct (map todo_id (todos example_state))"
    by (simp add: example_state_def item_def)
  have i: "snapshot_ids example_state = [1, 3]"
    by (simp add: snapshot_ids_def example_state_def item_def)
  have r: "remove_snapshot [1, 3] (todos example_state) = [item 2 False]"
    by (simp add: remove_snapshot_def example_state_def item_def)
  note c = clearCompleted_sweep
    [of "\<lambda>i. if i = 1 then Inl (HttpError 500) else Inr ()" id example_state]
  from c have q: "requests (clearCompleted (\<lambda>i. if i = 1 then Inl (HttpError 500) else Inr ()) id
      example_state) = map DeleteTodo (snapshot_ids example_state)"
    by (rule conjunct1)
  from c h have t: "todos (final (clearCompleted (\<lambda>i. if i = 1 then Inl (HttpError 500) else Inr ()) id
        example_state)) = remove_snapshot (snapshot_ids example_state) (todos example_state)"
    by blast
  from h show ?thesis
    unfolding q t i r by simp
qed

end
